theory Spec2Isabelle
  imports Complex_Main "HOL-Library.Sublist" "HOL-Library.Multiset"
    "HOL-Library.Char_ord" "HOL-Library.List_Lexorder"
begin

section \<open>The table and the filter criteria\<close>

text \<open>
  The script \<^verbatim>\<open>main.py\<close> loads one table \<^verbatim>\<open>df\<close> and derives everything else
  from it with dataframe calls. A row of the table is a record. A numeric column is
  taken to be a float64 column, as \<^verbatim>\<open>pd.to_numeric(..., errors='coerce')\<close> returns
  it for a column with a missing or unparsable cell: a cell is either a number or NaN,
  written \<open>Some v\<close> and \<open>None\<close>. Finite floats are read as the real numbers they
  denote (comparisons on them are exact); rounding inside sums and means is not
  modelled. The column \<^verbatim>\<open>year\<close> comes from \<^verbatim>\<open>release_date.dt.year\<close>, so its non-NaN
  cells are whole numbers. \<^verbatim>\<open>genres_list\<close> holds what \<^verbatim>\<open>parse_genres\<close> returned for
  the row, here a list of genre names.
\<close>

record movie =
  title :: string
  year :: "int option"
  budget :: "real option"
  revenue :: "real option"
  vote_average :: "real option"
  vote_count :: "real option"
  runtime :: "real option"
  genres_list :: "string list"

text \<open>
  The three sidebar widgets: \<^verbatim>\<open>genre_filter\<close> (a multiselect, a list of names),
  \<^verbatim>\<open>year_range\<close> (a pair of whole numbers) and \<^verbatim>\<open>min_votes\<close> (a whole number).
\<close>

record criteria =
  genre_filter :: "string list"
  year_range :: "int \<times> int"
  min_votes :: int

section \<open>Filtering (lines 46 to 52)\<close>

text \<open>
  \<^verbatim>\<open>Series.between(left, right)\<close> is \<^verbatim>\<open>(left <= s) & (s <= right)\<close>, inclusive on both
  sides; a comparison with NaN is False.
\<close>

definition between :: "int option \<Rightarrow> int \<Rightarrow> int \<Rightarrow> bool" where
  "between v left right = (case v of None \<Rightarrow> False | Some y \<Rightarrow> left \<le> y \<and> y \<le> right)"

text \<open>\<^verbatim>\<open>df['vote_count'] >= min_votes\<close>: False on NaN.\<close>

definition ge_scalar :: "real option \<Rightarrow> int \<Rightarrow> bool" where
  "ge_scalar v m = (case v of None \<Rightarrow> False | Some c \<Rightarrow> of_int m \<le> c)"

definition year_votes_mask :: "criteria \<Rightarrow> movie \<Rightarrow> bool" where
  "year_votes_mask c r =
     (between (year r) (fst (year_range c)) (snd (year_range c)) \<and>
      ge_scalar (vote_count r) (min_votes c))"

text \<open>\<^verbatim>\<open>lambda x: any(g in x for g in genre_filter)\<close>\<close>

definition genre_mask :: "string list \<Rightarrow> movie \<Rightarrow> bool" where
  "genre_mask gf r = list_ex (\<lambda>g. g \<in> set (genres_list r)) gf"

text \<open>
  \<^verbatim>\<open>filtered_df = df[mask]\<close>, then \<^verbatim>\<open>if genre_filter:\<close> a second selection. An empty
  list is falsy, so the second selection is skipped for it.
\<close>

definition filtered_df :: "criteria \<Rightarrow> movie list \<Rightarrow> movie list" where
  "filtered_df c df =
     (let selected = filter (year_votes_mask c) df
      in if genre_filter c \<noteq> [] then filter (genre_mask (genre_filter c)) selected
         else selected)"

section \<open>Series reductions (lines 57 to 60)\<close>

definition dropna :: "'a option list \<Rightarrow> 'a list" where
  "dropna vs = concat (map (\<lambda>v. case v of None \<Rightarrow> [] | Some x \<Rightarrow> [x]) vs)"

text \<open>\<^verbatim>\<open>Series.mean()\<close> skips NaN and is NaN when nothing is left.\<close>

definition mean :: "real option list \<Rightarrow> real option" where
  "mean vs =
     (let xs = dropna vs
      in if xs = [] then None else Some (sum_list xs / real (length xs)))"

text \<open>\<^verbatim>\<open>Series.sum()\<close> skips NaN; the sum of nothing is 0.\<close>

definition sum_series :: "real option list \<Rightarrow> real" where
  "sum_series vs = sum_list (dropna vs)"

section \<open>The frame after line 52 and the metrics (lines 57 to 60)\<close>

text \<open>
  Indexing a frame with a Series selects rows only when the Series is a boolean mask.
  \<^verbatim>\<open>Series.apply\<close> on a column without rows calls nothing and returns an empty Series
  of dtype object, which is not a boolean mask: indexing with it selects the columns it
  lists, that is none. So line 52, applied to a selection without rows, yields a frame
  with neither rows nor columns. A frame is its rows together with the information
  whether it still has its columns.
\<close>

record frame =
  frame_rows :: "movie list"
  has_columns :: bool

datatype frame_error = KeyError

text \<open>
  \<^verbatim>\<open>frame[frame['genres_list'].apply(f)]\<close> for a frame that has its columns, given
  by its rows.
\<close>

definition getitem_applied :: "(movie \<Rightarrow> bool) \<Rightarrow> movie list \<Rightarrow> frame" where
  "getitem_applied f rows =
     (if rows = [] then \<lparr>frame_rows = [], has_columns = False\<rparr>
      else \<lparr>frame_rows = filter f rows, has_columns = True\<rparr>)"

text \<open>Lines 46 to 52 on frames; \<^verbatim>\<open>df\<close> and a row selection of it have the columns.\<close>

definition filtered_frame :: "criteria \<Rightarrow> movie list \<Rightarrow> frame" where
  "filtered_frame c df =
     (let selected = filter (year_votes_mask c) df
      in if genre_filter c \<noteq> [] then getitem_applied (genre_mask (genre_filter c)) selected
         else \<lparr>frame_rows = selected, has_columns = True\<rparr>)"

text \<open>\<^verbatim>\<open>frame['column']\<close>: a \<^verbatim>\<open>KeyError\<close> when the frame has no such column.\<close>

definition getitem_column :: "frame \<Rightarrow> (movie \<Rightarrow> 'v) \<Rightarrow> frame_error + 'v list" where
  "getitem_column fr col =
     (if has_columns fr then Inr (map col (frame_rows fr)) else Inl KeyError)"

text \<open>
  The four metrics in the order of lines 57 to 60: \<^verbatim>\<open>len\<close> of the frame, then the
  three column reductions; the first exception ends the script. \<^verbatim>\<open>round(x, ndigits)\<close>
  and the format string only change how a number is displayed (\<^verbatim>\<open>round\<close> of NaN with
  \<^verbatim>\<open>ndigits\<close> given is NaN, not an exception), so the values are kept as computed.
\<close>

definition show_metrics :: "frame \<Rightarrow> frame_error + (nat \<times> real option \<times> real \<times> real option)" where
  "show_metrics fr =
     (case getitem_column fr vote_average of
        Inl e \<Rightarrow> Inl e
      | Inr ratings \<Rightarrow>
          (case getitem_column fr revenue of
             Inl e \<Rightarrow> Inl e
           | Inr revenues \<Rightarrow>
               (case getitem_column fr runtime of
                  Inl e \<Rightarrow> Inl e
                | Inr runtimes \<Rightarrow>
                    Inr (length (frame_rows fr), mean ratings, sum_series revenues,
                         mean runtimes))))"

section \<open>Sorting and the largest rows (lines 76, 85 and 108)\<close>

text \<open>
  A frame in descending order of a column: the rows whose cell is a number come first,
  largest first, and the NaN rows follow in their original order
  (\<^verbatim>\<open>na_position='last'\<close>). \<open>sort_values_desc\<close> is that order with equal cells in
  row order, computed by reversing, sorting ascending with the stable insertion sort
  \<open>sort_key\<close>, and reversing again. It stands for \<^verbatim>\<open>sort_values\<close> at line 85, where
  the order of equal cells is left to the sorting algorithm and nothing proved below
  depends on it, and for the stable sort inside \<^verbatim>\<open>nlargest\<close>.
\<close>

definition notna_rows :: "('a \<Rightarrow> real option) \<Rightarrow> 'a list \<Rightarrow> (real \<times> 'a) list" where
  "notna_rows col rows =
     concat (map (\<lambda>r. case col r of None \<Rightarrow> [] | Some v \<Rightarrow> [(v, r)]) rows)"

definition isna_rows :: "('a \<Rightarrow> real option) \<Rightarrow> 'a list \<Rightarrow> 'a list" where
  "isna_rows col rows = filter (\<lambda>r. col r = None) rows"

definition sort_desc :: "(real \<times> 'a) list \<Rightarrow> (real \<times> 'a) list" where
  "sort_desc ps = rev (sort_key fst (rev ps))"

definition sort_values_desc :: "('a \<Rightarrow> real option) \<Rightarrow> 'a list \<Rightarrow> 'a list" where
  "sort_values_desc col rows =
     map snd (sort_desc (notna_rows col rows)) @ isna_rows col rows"









section \<open>Grouping (lines 80 to 96)\<close>

text \<open>
  \<^verbatim>\<open>groupby(key)\<close> with its defaults drops the rows whose key is NaN and lists the
  groups in ascending key order.
\<close>

definition group_keys :: "('a \<Rightarrow> 'k::linorder option) \<Rightarrow> 'a list \<Rightarrow> 'k list" where
  "group_keys key rows = sort (remdups (dropna (map key rows)))"

definition group_rows :: "('a \<Rightarrow> 'k option) \<Rightarrow> 'k \<Rightarrow> 'a list \<Rightarrow> 'a list" where
  "group_rows key k rows = filter (\<lambda>r. key r = Some k) rows"

definition groupby_size :: "('a \<Rightarrow> 'k::linorder option) \<Rightarrow> 'a list \<Rightarrow> ('k \<times> nat) list" where
  "groupby_size key rows =
     map (\<lambda>k. (k, length (group_rows key k rows))) (group_keys key rows)"

definition groupby_mean ::
  "('a \<Rightarrow> 'k::linorder option) \<Rightarrow> ('a \<Rightarrow> real option) \<Rightarrow> 'a list \<Rightarrow> ('k \<times> real option) list"
where
  "groupby_mean key col rows =
     map (\<lambda>k. (k, mean (map col (group_rows key k rows)))) (group_keys key rows)"

text \<open>
  \<^verbatim>\<open>explode('genres_list')\<close>: one copy of the row for each element of its list, in
  order, and a single copy with a NaN entry for an empty list.
\<close>

definition explode :: "movie list \<Rightarrow> (string option \<times> movie) list" where
  "explode rows =
     concat (map (\<lambda>r. if genres_list r = [] then [(None, r)]
                       else map (\<lambda>g. (Some g, r)) (genres_list r)) rows)"

definition revenue_by_genre :: "movie list \<Rightarrow> (string \<times> real option) list" where
  "revenue_by_genre fdf =
     sort_values_desc snd (groupby_mean fst (\<lambda>p. revenue (snd p)) (explode fdf))"

definition movies_per_year :: "movie list \<Rightarrow> (int \<times> nat) list" where
  "movies_per_year fdf = groupby_size year fdf"

definition avg_rating_per_year :: "movie list \<Rightarrow> (int \<times> real option) list" where
  "avg_rating_per_year fdf = groupby_mean year vote_average fdf"

section \<open>Correlation (line 102)\<close>

text \<open>
  \<^verbatim>\<open>DataFrame.corr()\<close> with its defaults (\<^verbatim>\<open>method='pearson'\<close>, \<^verbatim>\<open>min_periods=1\<close>)
  computes every entry from the rows in which both columns of the pair hold a number.
  An entry is NaN when there is no such row or when the divisor, the root of the
  product of the two sums of squared deviations, is 0.
\<close>

definition pair_obs ::
  "('a \<Rightarrow> real option) \<Rightarrow> ('a \<Rightarrow> real option) \<Rightarrow> 'a list \<Rightarrow> (real \<times> real) list"
where
  "pair_obs cx cy rows =
     concat (map (\<lambda>r. case cx r of None \<Rightarrow> []
                       | Some x \<Rightarrow> (case cy r of None \<Rightarrow> [] | Some y \<Rightarrow> [(x, y)])) rows)"

definition pearson :: "(real \<times> real) list \<Rightarrow> real option" where
  "pearson ps =
     (let nobs = length ps
      in if nobs < 1 then None
         else
           let meanx = sum_list (map fst ps) / real nobs;
               meany = sum_list (map snd ps) / real nobs;
               ssqdm_x = sum_list (map (\<lambda>p. (fst p - meanx) ^ 2) ps);
               ssqdm_y = sum_list (map (\<lambda>p. (snd p - meany) ^ 2) ps);
               covxy = sum_list (map (\<lambda>p. (fst p - meanx) * (snd p - meany)) ps);
               divisor = sqrt (ssqdm_x * ssqdm_y)
           in if divisor \<noteq> 0 then Some (covxy / divisor) else None)"

definition numeric_columns :: "(movie \<Rightarrow> real option) list" where
  "numeric_columns = [budget, revenue, vote_average, vote_count, runtime]"

definition corr :: "movie list \<Rightarrow> real option list list" where
  "corr fdf =
     map (\<lambda>cx. map (\<lambda>cy. pearson (pair_obs cx cy fdf)) numeric_columns) numeric_columns"

section \<open>Genre parsing (lines 24 to 31)\<close>

text \<open>
  The values \<^verbatim>\<open>ast.literal_eval\<close> can return: strings, bytes, numbers, tuples, lists,
  dicts, sets, booleans, \<^verbatim>\<open>None\<close> and \<^verbatim>\<open>Ellipsis\<close>. A dict is the list of its
  key/value pairs in the order of the literal; a later pair for the same key wins.
\<close>

datatype pyval =
    PNone
  | PEllipsis
  | PBool bool
  | PInt int
  | PFloat real
  | PComplex real real
  | PStr string
  | PBytes string
  | PTuple "pyval list"
  | PList "pyval list"
  | PSet "pyval list"
  | PDict "(pyval \<times> pyval) list"

datatype exn = SyntaxError | ValueError | TypeError | AttributeError | MemoryError | RecursionError

text \<open>
  \<^verbatim>\<open>'name' in d\<close>: key lookup in a dict, substring test in a string, element test in a
  list, tuple or set; a \<^verbatim>\<open>TypeError\<close> for bytes and for every value that is not a
  container. Only the string \<^verbatim>\<open>'name'\<close> equals \<^verbatim>\<open>'name'\<close>.
\<close>

definition contains_name :: "pyval \<Rightarrow> exn + bool" where
  "contains_name d =
     (case d of
        PDict kvs \<Rightarrow> Inr (PStr ''name'' \<in> set (map fst kvs))
      | PStr s \<Rightarrow> Inr (sublist ''name'' s)
      | PList xs \<Rightarrow> Inr (PStr ''name'' \<in> set xs)
      | PTuple xs \<Rightarrow> Inr (PStr ''name'' \<in> set xs)
      | PSet xs \<Rightarrow> Inr (PStr ''name'' \<in> set xs)
      | _ \<Rightarrow> Inl TypeError)"

text \<open>
  \<^verbatim>\<open>d.get('name')\<close>: the value of the key, \<^verbatim>\<open>None\<close> without the key, and an
  \<^verbatim>\<open>AttributeError\<close> for everything that is not a dict.
\<close>

definition get_name :: "pyval \<Rightarrow> exn + pyval" where
  "get_name d =
     (case d of
        PDict kvs \<Rightarrow>
          Inr (case map_of (rev kvs) (PStr ''name'') of None \<Rightarrow> PNone | Some v \<Rightarrow> v)
      | _ \<Rightarrow> Inl AttributeError)"

text \<open>
  The comprehension \<^verbatim>\<open>[d.get('name') for d in genres if 'name' in d]\<close>, left to
  right; the first exception ends it.
\<close>

fun names_of :: "pyval list \<Rightarrow> exn + pyval list" where
  "names_of [] = Inr []"
| "names_of (d # ds) =
     (case contains_name d of
        Inl e \<Rightarrow> Inl e
      | Inr False \<Rightarrow> names_of ds
      | Inr True \<Rightarrow>
          (case get_name d of
             Inl e \<Rightarrow> Inl e
           | Inr v \<Rightarrow> (case names_of ds of Inl e \<Rightarrow> Inl e | Inr vs \<Rightarrow> Inr (v # vs))))"

text \<open>
  \<^verbatim>\<open>parse_genres(x)\<close>. Its argument here is the outcome of \<^verbatim>\<open>ast.literal_eval(x)\<close>,
  a library call: the value, or the exception it raised. The bare \<^verbatim>\<open>except:\<close> turns
  every exception of the \<^verbatim>\<open>try\<close> block into \<^verbatim>\<open>[]\<close>, and a value that is not a list
  falls through to the final \<^verbatim>\<open>return []\<close>.
\<close>

definition parse_genres :: "exn + pyval \<Rightarrow> pyval list" where
  "parse_genres evaluated =
     (case evaluated of
        Inl e \<Rightarrow> []
      | Inr genres \<Rightarrow>
          (case genres of
             PList ds \<Rightarrow> (case names_of ds of Inl e \<Rightarrow> [] | Inr vs \<Rightarrow> vs)
           | _ \<Rightarrow> []))"

section \<open>Sample data\<close>

definition drama_2000 :: movie where
  "drama_2000 =
     \<lparr>title = ''Row one'', year = Some 2000, budget = None, revenue = Some 10,
      vote_average = Some 7, vote_count = Some 50, runtime = Some 90,
      genres_list = [''Drama'']\<rparr>"

definition comedy_2005 :: movie where
  "comedy_2005 =
     \<lparr>title = ''Row two'', year = Some 2005, budget = Some 5, revenue = Some 40,
      vote_average = Some 8, vote_count = Some 200, runtime = None,
      genres_list = [''Comedy'', ''Drama'']\<rparr>"

definition undated :: movie where
  "undated =
     \<lparr>title = ''Row three'', year = None, budget = Some 7, revenue = None,
      vote_average = None, vote_count = Some 900, runtime = Some 100,
      genres_list = []\<rparr>"

definition sample_df :: "movie list" where
  "sample_df = [drama_2000, comedy_2005, undated]"

definition comedy_2000s :: criteria where
  "comedy_2000s = \<lparr>genre_filter = [''Comedy''], year_range = (2000, 2010), min_votes = 100\<rparr>"

definition no_filter :: criteria where
  "no_filter = \<lparr>genre_filter = [], year_range = (1900, 2100), min_votes = 0\<rparr>"

section \<open>What the claims say, as predicates\<close>

text \<open>
  The descending order of a column that puts NaN last, and what it means for a table
  \<open>t\<close> to be all of \<open>rows\<close> in that order with equal cells left in their original
  order: the same rows, ordered, and for every cell value the rows holding it come in
  the order they had.
\<close>

definition ge_nan_last :: "real option \<Rightarrow> real option \<Rightarrow> bool" where
  "ge_nan_last a b =
     (case b of None \<Rightarrow> True | Some y \<Rightarrow> (case a of None \<Rightarrow> False | Some x \<Rightarrow> y \<le> x))"



section \<open>More sample data\<close>

definition second_drama :: movie where
  "second_drama =
     \<lparr>title = ''Row four'', year = Some 2001, budget = Some 1, revenue = Some 10,
      vote_average = Some 8, vote_count = Some 120, runtime = Some 95,
      genres_list = [''Drama'']\<rparr>"

definition tied_df :: "movie list" where
  "tied_df = [drama_2000, comedy_2005, undated, second_drama]"

definition scifi_only :: criteria where
  "scifi_only = \<lparr>genre_filter = [''SciFi''], year_range = (1990, 2020), min_votes = 0\<rparr>"

text \<open>
  The cells that enter the mean of genre \<open>g\<close> in \<^verbatim>\<open>revenue_by_genre\<close>: the revenue of
  each row, once for every occurrence of \<open>g\<close> in the row's list. The second definition
  is the reading "once for each genre name the row carries".
\<close>

definition genre_revenues :: "string \<Rightarrow> movie list \<Rightarrow> real option list" where
  "genre_revenues g fdf =
     concat (map (\<lambda>r. replicate (count_list (genres_list r) g) (revenue r)) fdf)"

definition genre_revenues_once :: "string \<Rightarrow> movie list \<Rightarrow> real option list" where
  "genre_revenues_once g fdf = map revenue (filter (\<lambda>r. g \<in> set (genres_list r)) fdf)"

definition repeated_df :: "movie list" where
  "repeated_df =
     [\<lparr>title = ''Twice'', year = Some 2001, budget = None, revenue = Some 10,
       vote_average = Some 5, vote_count = Some 10, runtime = None,
       genres_list = [''Action'', ''Action'']\<rparr>,
      \<lparr>title = ''Once'', year = Some 2002, budget = None, revenue = Some 40,
       vote_average = Some 6, vote_count = Some 20, runtime = None,
       genres_list = [''Action'']\<rparr>]"

definition silent_western :: movie where
  "silent_western =
     \<lparr>title = ''Row five'', year = Some 2001, budget = None, revenue = None,
      vote_average = None, vote_count = Some 300, runtime = None,
      genres_list = [''Western'']\<rparr>"

section \<open>Elements of a parsed genre list\<close>

text \<open>
  An element on which the comprehension of \<^verbatim>\<open>parse_genres\<close> raises: the membership
  test fails, or it succeeds and \<^verbatim>\<open>.get\<close> fails. \<open>name_values\<close> collects, in order,
  the value of the key \<^verbatim>\<open>'name'\<close> from every dict that has the key.
\<close>

definition raises_on :: "pyval \<Rightarrow> bool" where
  "raises_on d =
     (case contains_name d of
        Inl e \<Rightarrow> True
      | Inr False \<Rightarrow> False
      | Inr True \<Rightarrow> (case get_name d of Inl e \<Rightarrow> True | Inr v \<Rightarrow> False))"

definition name_values :: "pyval list \<Rightarrow> pyval list" where
  "name_values ds =
     concat (map (\<lambda>d. case d of
                         PDict kvs \<Rightarrow>
                           (case map_of (rev kvs) (PStr ''name'') of None \<Rightarrow> [] | Some v \<Rightarrow> [v])
                       | _ \<Rightarrow> []) ds)"

definition is_object :: "pyval \<Rightarrow> bool" where
  "is_object d = (case d of PDict kvs \<Rightarrow> True | _ \<Rightarrow> False)"

definition action_then_five :: pyval where
  "action_then_five = PList [PDict [(PStr ''id'', PInt 28), (PStr ''name'', PStr ''Action'')], PInt 5]"

definition action_then_text :: pyval where
  "action_then_text = PList [PDict [(PStr ''name'', PStr ''Action'')], PStr ''abc'']"

definition unnamed_then_action :: pyval where
  "unnamed_then_action = PList [PDict [(PStr ''id'', PInt 1)], PDict [(PStr ''name'', PStr ''Action'')]]"

definition two_genres :: pyval where
  "two_genres =
     PList [PDict [(PStr ''id'', PInt 28), (PStr ''name'', PStr ''Action'')],
            PDict [(PStr ''id'', PInt 35), (PStr ''name'', PStr ''Comedy'')]]"

text \<open>The numbers of a column, NaN left out.\<close>

definition column_values :: "(movie \<Rightarrow> real option) \<Rightarrow> movie list \<Rightarrow> real list" where
  "column_values col fdf = dropna (map col fdf)"





text \<open>A genre selection together with a vote threshold that no row of the sample reaches.\<close>

definition drama_5000_votes :: criteria where
  "drama_5000_votes =
     \<lparr>genre_filter = [''Drama''], year_range = (2000, 2005), min_votes = 5000\<rparr>"


section \<open>The filter\<close>

lemma year_votes_mask_iff:
  "year_votes_mask c r \<longleftrightarrow>
     (\<exists>y. year r = Some y \<and> fst (year_range c) \<le> y \<and> y \<le> snd (year_range c)) \<and>
     (\<exists>v. vote_count r = Some v \<and> of_int (min_votes c) \<le> v)"
  by (auto simp: year_votes_mask_def between_def ge_scalar_def split: option.splits)

lemma genre_mask_iff: "genre_mask gf r \<longleftrightarrow> (\<exists>g \<in> set (genres_list r). g \<in> set gf)"
  by (auto simp: genre_mask_def list_ex_iff)

lemma filtered_df_filter:
  "filtered_df c df =
     filter (\<lambda>r. year_votes_mask c r \<and>
                 (genre_filter c \<noteq> [] \<longrightarrow> genre_mask (genre_filter c) r)) df"
  by (simp add: filtered_df_def Let_def)

text \<open>C1: the filtered table is exactly the rows of the table, in order, that pass all
  tests: the year is a number inside the inclusive range, the vote count is a number
  and at least \<^verbatim>\<open>min_votes\<close>, and, when a genre is selected, one of the row's genre
  names equals a selected name.\<close>

theorem filtered_df_iff:
  "filtered_df c df =
     filter (\<lambda>r. (\<exists>y. year r = Some y \<and> fst (year_range c) \<le> y \<and> y \<le> snd (year_range c)) \<and>
                 (\<exists>v. vote_count r = Some v \<and> of_int (min_votes c) \<le> v) \<and>
                 (genre_filter c \<noteq> [] \<longrightarrow>
                    (\<exists>g \<in> set (genres_list r). g \<in> set (genre_filter c)))) df"
  unfolding filtered_df_filter
  by (rule filter_cong [OF refl]) (simp only: year_votes_mask_iff genre_mask_iff conj_assoc)

theorem filtered_df_iff_witness:
  "filtered_df comedy_2000s sample_df = [comedy_2005]"
  using filtered_df_iff [of comedy_2000s sample_df]
  by (simp add: comedy_2000s_def sample_df_def drama_2000_def comedy_2005_def undated_def)

lemma length_filter_mono:
  "(\<And>x. x \<in> set xs \<Longrightarrow> P x \<Longrightarrow> Q x) \<Longrightarrow> length (filter P xs) \<le> length (filter Q xs)"
  by (induction xs) auto

lemma year_votes_mask_mono:
  assumes "fst (year_range c') \<le> fst (year_range c)"
    and "snd (year_range c) \<le> snd (year_range c')"
    and "min_votes c' \<le> min_votes c"
    and "year_votes_mask c r"
  shows "year_votes_mask c' r"
  using assms unfolding year_votes_mask_iff by force

text \<open>C6: the filtered table is a sub-list of the table, and a criteria with a wider year
  range, a lower \<^verbatim>\<open>min_votes\<close> or an emptied genre selection (any of them, the rest
  unchanged) never selects fewer rows.\<close>

theorem filtered_df_weaken:
  assumes "fst (year_range c') \<le> fst (year_range c)"
    and "snd (year_range c) \<le> snd (year_range c')"
    and "min_votes c' \<le> min_votes c"
    and "genre_filter c' = [] \<or> genre_filter c' = genre_filter c"
  shows "subseq (filtered_df c df) df \<and>
         length (filtered_df c df) \<le> length (filtered_df c' df)"
proof
  show "subseq (filtered_df c df) df"
    by (simp add: filtered_df_filter)
  show "length (filtered_df c df) \<le> length (filtered_df c' df)"
    unfolding filtered_df_filter
  proof (rule length_filter_mono)
    fix r
    assume "year_votes_mask c r \<and> (genre_filter c \<noteq> [] \<longrightarrow> genre_mask (genre_filter c) r)"
    with assms(4) year_votes_mask_mono [OF assms(1-3)]
    show "year_votes_mask c' r \<and> (genre_filter c' \<noteq> [] \<longrightarrow> genre_mask (genre_filter c') r)"
      by auto
  qed
qed

theorem filtered_df_weaken_witness:
  "subseq (filtered_df comedy_2000s sample_df) sample_df \<and>
   length (filtered_df comedy_2000s sample_df) \<le> length (filtered_df no_filter sample_df) \<and>
   filtered_df no_filter sample_df = [drama_2000, comedy_2005]"
  using filtered_df_weaken [of no_filter comedy_2000s sample_df]
  by (simp add: filtered_df_def year_votes_mask_def between_def ge_scalar_def genre_mask_def
      no_filter_def comedy_2000s_def sample_df_def drama_2000_def comedy_2005_def undated_def)

section \<open>Grouping by year\<close>

lemma filtered_df_year: "r \<in> set (filtered_df c df) \<Longrightarrow> year r \<noteq> None"
  by (auto simp: filtered_df_filter year_votes_mask_iff)

lemma set_dropna: "set (dropna vs) = {x. Some x \<in> set vs}"
  by (induction vs) (auto simp: dropna_def split: option.splits)

lemma set_group_keys: "set (group_keys key rows) = {k. \<exists>r \<in> set rows. key r = Some k}"
  by (force simp: group_keys_def set_dropna)

lemma distinct_group_keys: "distinct (group_keys key rows)"
  by (simp add: group_keys_def)

lemma sorted_group_keys: "sorted (group_keys key rows)"
  by (simp add: group_keys_def)

lemma sum_group_lengths:
  assumes "finite K" and "\<And>r k. r \<in> set rows \<Longrightarrow> key r = Some k \<Longrightarrow> k \<in> K"
  shows "(\<Sum>k\<in>K. length (group_rows key k rows)) = length (filter (\<lambda>r. key r \<noteq> None) rows)"
  using assms(2)
proof (induction rows)
  case Nil
  then show ?case by (simp add: group_rows_def)
next
  case (Cons r rows)
  have IH: "(\<Sum>k\<in>K. length (group_rows key k rows)) = length (filter (\<lambda>r. key r \<noteq> None) rows)"
    by (rule Cons.IH) (rule Cons.prems, simp_all)
  show ?case
  proof (cases "key r")
    case None
    then show ?thesis using IH by (simp add: group_rows_def)
  next
    case (Some k0)
    then have "k0 \<in> K" using Cons.prems [of r k0] by simp
    have "(\<Sum>k\<in>K. length (group_rows key k (r # rows))) =
          (\<Sum>k\<in>K. (if k = k0 then 1 else 0) + length (group_rows key k rows))"
      by (rule sum.cong) (auto simp: group_rows_def Some)
    also have "\<dots> = 1 + (\<Sum>k\<in>K. length (group_rows key k rows))"
      using \<open>finite K\<close> \<open>k0 \<in> K\<close> by (simp add: sum.distrib)
    finally show ?thesis using IH Some by simp
  qed
qed

lemma sum_groupby_size:
  "sum_list (map snd (groupby_size key rows)) = length (filter (\<lambda>r. key r \<noteq> None) rows)"
proof -
  have "sum_list (map snd (groupby_size key rows)) =
        sum_list (map (\<lambda>k. length (group_rows key k rows)) (group_keys key rows))"
    by (simp add: groupby_size_def comp_def)
  also have "\<dots> = (\<Sum>k\<in>set (group_keys key rows). length (group_rows key k rows))"
    by (rule sum_list_distinct_conv_sum_set) (rule distinct_group_keys)
  also have "\<dots> = length (filter (\<lambda>r. key r \<noteq> None) rows)"
  proof (rule sum_group_lengths)
    show "finite (set (group_keys key rows))"
      by (rule finite_set)
    show "k \<in> set (group_keys key rows)" if "r \<in> set rows" "key r = Some k" for r k
      using that unfolding set_group_keys by blast
  qed
  finally show ?thesis .
qed

text \<open>C10: every row of the filtered table has a year, so no row is dropped by the
  grouping on \<^verbatim>\<open>year\<close>: each row's year is a group of the count table, the mean-rating
  table has the same groups, and the counts add up to the number of filtered rows.\<close>

theorem year_groups_cover:
  "(\<forall>r \<in> set (filtered_df c df). year r \<noteq> None) \<and>
   sum_list (map snd (movies_per_year (filtered_df c df))) = length (filtered_df c df) \<and>
   map fst (avg_rating_per_year (filtered_df c df)) = map fst (movies_per_year (filtered_df c df)) \<and>
   (\<forall>r \<in> set (filtered_df c df). \<exists>y \<in> set (map fst (movies_per_year (filtered_df c df))). year r = Some y)"
proof -
  have all: "\<forall>r \<in> set (filtered_df c df). year r \<noteq> None"
    using filtered_df_year by blast
  then have "filter (\<lambda>r. year r \<noteq> None) (filtered_df c df) = filtered_df c df"
    by (simp add: filter_id_conv)
  then have "sum_list (map snd (movies_per_year (filtered_df c df))) = length (filtered_df c df)"
    by (simp add: movies_per_year_def sum_groupby_size)
  moreover have "map fst (avg_rating_per_year (filtered_df c df)) =
      map fst (movies_per_year (filtered_df c df))"
    by (simp add: avg_rating_per_year_def movies_per_year_def groupby_mean_def groupby_size_def comp_def)
  moreover have "\<forall>r \<in> set (filtered_df c df).
      \<exists>y \<in> set (map fst (movies_per_year (filtered_df c df))). year r = Some y"
    using all by (fastforce simp: movies_per_year_def groupby_size_def comp_def set_group_keys)
  ultimately show ?thesis using all by blast
qed

theorem year_groups_cover_witness:
  "movies_per_year (filtered_df no_filter sample_df) = [(2000, 1), (2005, 1)] \<and>
   sum_list (map snd (movies_per_year (filtered_df no_filter sample_df))) =
     length (filtered_df no_filter sample_df)"
  using year_groups_cover [of no_filter sample_df]
  by (simp add: movies_per_year_def groupby_size_def group_keys_def group_rows_def dropna_def
   filtered_df_def year_votes_mask_def between_def ge_scalar_def genre_mask_def
      no_filter_def sample_df_def drama_2000_def comedy_2005_def undated_def)

section \<open>The largest rows\<close>

lemma map_snd_notna_rows: "map snd (notna_rows col rows) = filter (\<lambda>r. col r \<noteq> None) rows"
  by (induction rows) (auto simp: notna_rows_def split: option.splits)

lemma notna_rows_col: "p \<in> set (notna_rows col rows) \<Longrightarrow> col (snd p) = Some (fst p)"
  by (induction rows) (auto simp: notna_rows_def split: option.splits)

lemma set_sort_desc: "set (sort_desc ps) = set ps"
  by (simp add: sort_desc_def)

lemma mset_sort_desc: "mset (sort_desc ps) = mset ps"
  by (simp add: sort_desc_def)

lemma sorted_sort_desc: "sorted_wrt (\<lambda>a b. fst b \<le> fst a) (sort_desc ps)"
proof -
  have "sorted (map fst (sort_key fst (rev ps)))"
    by (rule sorted_sort_key)
  then have "sorted_wrt (\<lambda>a b. fst a \<le> fst b) (sort_key fst (rev ps))"
    by (simp add: sorted_map)
  then show ?thesis
    by (simp add: sort_desc_def sorted_wrt_rev)
qed


lemma mset_sort_values_desc: "mset (sort_values_desc col rows) = mset rows"
proof -
  have "mset (map snd (sort_desc (notna_rows col rows))) = mset (map snd (notna_rows col rows))"
    by (simp add: mset_sort_desc)
  then have "mset (map snd (sort_desc (notna_rows col rows))) =
      mset (filter (\<lambda>r. col r \<noteq> None) rows)"
    by (simp only: map_snd_notna_rows)
  then have "mset (sort_values_desc col rows) =
      mset (filter (\<lambda>r. col r \<noteq> None) rows) + mset (filter (\<lambda>r. \<not> col r \<noteq> None) rows)"
    by (simp add: sort_values_desc_def isna_rows_def)
  then show ?thesis
    by (simp only: mset_filter multiset_partition [symmetric])
qed


lemma sorted_sort_values_desc:
  "sorted_wrt (\<lambda>a b. ge_nan_last (col a) (col b)) (sort_values_desc col rows)"
proof -
  let ?ps = "sort_desc (notna_rows col rows)"
  have col: "col (snd p) = Some (fst p)" if "p \<in> set ?ps" for p
    using that notna_rows_col by (simp add: set_sort_desc)
  have "sorted_wrt (\<lambda>a b. ge_nan_last (col (snd a)) (col (snd b))) ?ps"
    by (rule sorted_wrt_mono_rel [OF _ sorted_sort_desc]) (simp add: col ge_nan_last_def)
  then have "sorted_wrt (\<lambda>a b. ge_nan_last (col a) (col b)) (map snd ?ps)"
    by (simp add: sorted_wrt_map)
  moreover have "sorted_wrt (\<lambda>a b. ge_nan_last (col a) (col b)) (isna_rows col rows)"
    by (rule sorted_wrt_mono_rel [of _ "\<lambda>a b. True"]) (auto simp: isna_rows_def ge_nan_last_def)
  moreover have "ge_nan_last (col a) (col b)" if "b \<in> set (isna_rows col rows)" for a b
    using that by (simp add: isna_rows_def ge_nan_last_def)
  ultimately show ?thesis
    by (simp add: sort_values_desc_def sorted_wrt_append)
qed

















section \<open>An empty filtered table\<close>

lemma mean_Nil: "mean [] = None"
  by (simp add: mean_def dropna_def)

lemma frame_rows_filtered_frame: "frame_rows (filtered_frame c df) = filtered_df c df"
  by (auto simp: filtered_frame_def filtered_df_def getitem_applied_def Let_def
      filter_empty_conv empty_filter_conv)

lemma has_columns_filtered_frame:
  "has_columns (filtered_frame c df) \<longleftrightarrow>
     \<not> (genre_filter c \<noteq> [] \<and> filter (year_votes_mask c) df = [])"
  by (simp add: filtered_frame_def getitem_applied_def Let_def)

lemma show_metrics_cases:
  "show_metrics fr =
     (if has_columns fr
      then Inr (length (frame_rows fr), mean (map vote_average (frame_rows fr)),
                sum_series (map revenue (frame_rows fr)), mean (map runtime (frame_rows fr)))
      else Inl KeyError)"
  by (simp add: show_metrics_def getitem_column_def)

text \<open>C4: with no row passing the filter, the metrics are the count 0, a NaN mean
  rating, the revenue sum 0 and a NaN mean runtime as long as the filtered frame kept
  its columns. When a genre is selected and the year and vote selection already has no
  row, line 52 leaves a frame without columns and the first column access, at line 58,
  raises \<^verbatim>\<open>KeyError\<close>, so no metric and no table is produced.\<close>

theorem show_metrics_empty:
  assumes "filtered_df c df = []"
  shows "frame_rows (filtered_frame c df) = [] \<and>
         show_metrics (filtered_frame c df) =
           (if genre_filter c \<noteq> [] \<and> filter (year_votes_mask c) df = [] then Inl KeyError
            else Inr (0, None, 0, None))"
  using assms
  by (simp add: show_metrics_cases frame_rows_filtered_frame has_columns_filtered_frame
      mean_Nil sum_series_def dropna_def)

theorem show_metrics_empty_witness:
  "filtered_df drama_5000_votes sample_df = [] \<and>
   show_metrics (filtered_frame drama_5000_votes sample_df) = Inl KeyError \<and>
   filtered_df scifi_only sample_df = [] \<and>
   show_metrics (filtered_frame scifi_only sample_df) = Inr (0, None, 0, None)"
proof -
  have a: "filtered_df drama_5000_votes sample_df = []"
    and a': "filter (year_votes_mask drama_5000_votes) sample_df = []"
    by (simp_all add: filtered_df_def year_votes_mask_def between_def ge_scalar_def genre_mask_def
        drama_5000_votes_def sample_df_def drama_2000_def comedy_2005_def undated_def)
  have b: "filtered_df scifi_only sample_df = []"
    and b': "filter (year_votes_mask scifi_only) sample_df \<noteq> []"
    by (simp_all add: filtered_df_def year_votes_mask_def between_def ge_scalar_def genre_mask_def
        scifi_only_def sample_df_def drama_2000_def comedy_2005_def undated_def)
  have g: "genre_filter drama_5000_votes \<noteq> []"
    by (simp add: drama_5000_votes_def)
  show ?thesis
    using a b show_metrics_empty [OF a] show_metrics_empty [OF b] a' b' g by simp
qed

section \<open>Mean revenue by genre\<close>

lemma exploded_group:
  "map (\<lambda>p. revenue (snd p)) (group_rows fst g (explode fdf)) = genre_revenues g fdf"
proof (induction fdf)
  case Nil
  show ?case by (simp add: group_rows_def explode_def genre_revenues_def)
next
  case (Cons r fdf)
  have one: "map (\<lambda>p. revenue (snd p)) (filter (\<lambda>p. fst p = Some g) (map (\<lambda>g'. (Some g', r)) gs)) =
      replicate (count_list gs g) (revenue r)" for gs
    by (induction gs) auto
  have "explode (r # fdf) =
      (if genres_list r = [] then [(None, r)] else map (\<lambda>g'. (Some g', r)) (genres_list r)) @ explode fdf"
    by (simp add: explode_def)
  then show ?case
    using Cons.IH one [of "genres_list r"]
    by (simp add: group_rows_def genre_revenues_def)
qed

lemma set_explode_keys:
  "set (group_keys fst (explode fdf)) = {g. \<exists>r \<in> set fdf. g \<in> set (genres_list r)}"
  unfolding set_group_keys by (force simp: explode_def split: if_splits)

lemma genre_revenues_distinct:
  "(\<And>r. r \<in> set fdf \<Longrightarrow> distinct (genres_list r)) \<Longrightarrow>
   genre_revenues g fdf = genre_revenues_once g fdf"
proof (induction fdf)
  case Nil
  show ?case by (simp add: genre_revenues_def genre_revenues_once_def)
next
  case (Cons r fdf)
  have d: "distinct (genres_list r)" using Cons.prems by simp
  have "distinct gs \<Longrightarrow> count_list gs g = (if g \<in> set gs then 1 else 0)" for gs
    by (induction gs) auto
  from this [OF d] have "count_list (genres_list r) g = (if g \<in> set (genres_list r) then 1 else 0)" .
  moreover have "genre_revenues g fdf = genre_revenues_once g fdf"
    using Cons by simp
  ultimately show ?case
    by (simp add: genre_revenues_def genre_revenues_once_def)
qed

lemma mean_None_iff: "mean vs = None \<longleftrightarrow> (\<forall>v \<in> set vs. v = None)"
proof -
  have "dropna vs = [] \<longleftrightarrow> (\<forall>v \<in> set vs. v = None)"
    by (induction vs) (auto simp: dropna_def split: option.splits)
  then show ?thesis by (simp add: mean_def Let_def)
qed

lemma set_groupby_mean:
  "set (groupby_mean key col rows) =
     {(k, mean (map col (group_rows key k rows))) | k. \<exists>r \<in> set rows. key r = Some k}"
  by (auto simp: groupby_mean_def set_group_keys)

lemma distinct_groupby_mean: "distinct (map fst (groupby_mean key col rows))"
  by (simp add: groupby_mean_def comp_def distinct_group_keys)

lemma set_sort_values_desc: "set (sort_values_desc col rows) = set rows"
  by (metis mset_sort_values_desc set_mset_mset)

lemma distinct_map_sort_values_desc:
  "distinct (map f (sort_values_desc col rows)) = distinct (map f rows)"
proof -
  have "mset (map f (sort_values_desc col rows)) = mset (map f rows)"
    by (simp add: mset_sort_values_desc)
  then show ?thesis by (rule mset_eq_imp_distinct_iff)
qed

lemma set_revenue_by_genre:
  "set (revenue_by_genre fdf) =
     {(g, mean (genre_revenues g fdf)) | g. \<exists>r \<in> set fdf. g \<in> set (genres_list r)}"
proof -
  have "set (revenue_by_genre fdf) =
      {(g, mean (map (\<lambda>p. revenue (snd p)) (group_rows fst g (explode fdf)))) | g.
         g \<in> set (group_keys fst (explode fdf))}"
    by (auto simp: revenue_by_genre_def set_sort_values_desc groupby_mean_def)
  then show ?thesis
    by (simp add: exploded_group set_explode_keys)
qed

lemma set_genre_revenues:
  "set (genre_revenues g fdf) = {revenue r | r. r \<in> set fdf \<and> g \<in> set (genres_list r)}"
proof -
  have "set (replicate (count_list gs g) v) = (if g \<in> set gs then {v} else {})"
    for gs :: "string list" and v :: "real option"
    by (simp add: count_list_0_iff)
  then show ?thesis
    by (auto simp: genre_revenues_def split: if_splits)
qed

text \<open>C3 (as amended): the table has one entry for each genre name that some filtered row
  carries and none for any other name; the entry is the mean over the revenue of every
  such row, taken once for each occurrence of the name in the row's list (so exactly
  once when the row's names are distinct); the entries are in descending order of the
  mean, NaN last. A genre whose rows all lack a revenue keeps its entry, with a NaN
  mean, exactly as a year whose rows all lack a rating does in the mean rating by year.\<close>

theorem revenue_by_genre_groups:
  "distinct (map fst (revenue_by_genre fdf)) \<and>
   (\<forall>g m. (g, m) \<in> set (revenue_by_genre fdf) \<longleftrightarrow>
      (\<exists>r \<in> set fdf. g \<in> set (genres_list r)) \<and> m = mean (genre_revenues g fdf)) \<and>
   ((\<forall>r \<in> set fdf. distinct (genres_list r)) \<longrightarrow>
      (\<forall>g. genre_revenues g fdf = genre_revenues_once g fdf)) \<and>
   sorted_wrt (\<lambda>a b. ge_nan_last (snd a) (snd b)) (revenue_by_genre fdf) \<and>
   (\<forall>g. (g, None) \<in> set (revenue_by_genre fdf) \<longleftrightarrow>
      (\<exists>r \<in> set fdf. g \<in> set (genres_list r)) \<and>
      (\<forall>r \<in> set fdf. g \<in> set (genres_list r) \<longrightarrow> revenue r = None)) \<and>
   (\<forall>y. (y, None) \<in> set (avg_rating_per_year fdf) \<longleftrightarrow>
      (\<exists>r \<in> set fdf. year r = Some y) \<and>
      (\<forall>r \<in> set fdf. year r = Some y \<longrightarrow> vote_average r = None))"
proof -
  have mem: "(g, m) \<in> set (revenue_by_genre fdf) \<longleftrightarrow>
      (\<exists>r \<in> set fdf. g \<in> set (genres_list r)) \<and> m = mean (genre_revenues g fdf)" for g m
    unfolding set_revenue_by_genre by auto
  have nan_genre: "None = mean (genre_revenues g fdf) \<longleftrightarrow>
      (\<forall>r \<in> set fdf. g \<in> set (genres_list r) \<longrightarrow> revenue r = None)" for g
    unfolding eq_commute [of None] mean_None_iff set_genre_revenues by auto
  have mem_year: "(y, m) \<in> set (avg_rating_per_year fdf) \<longleftrightarrow>
      (\<exists>r \<in> set fdf. year r = Some y) \<and> m = mean (map vote_average (group_rows year y fdf))"
    for y m
    unfolding avg_rating_per_year_def set_groupby_mean by auto
  have nan_year: "None = mean (map vote_average (group_rows year y fdf)) \<longleftrightarrow>
      (\<forall>r \<in> set fdf. year r = Some y \<longrightarrow> vote_average r = None)" for y
    unfolding eq_commute [of None] mean_None_iff group_rows_def by auto
  have 1: "distinct (map fst (revenue_by_genre fdf))"
    by (simp add: revenue_by_genre_def distinct_map_sort_values_desc distinct_groupby_mean)
  have 2: "(\<forall>r \<in> set fdf. distinct (genres_list r)) \<longrightarrow>
      (\<forall>g. genre_revenues g fdf = genre_revenues_once g fdf)"
    using genre_revenues_distinct by blast
  have 3: "sorted_wrt (\<lambda>a b. ge_nan_last (snd a) (snd b)) (revenue_by_genre fdf)"
    unfolding revenue_by_genre_def by (rule sorted_sort_values_desc)
  show ?thesis
    by (intro conjI allI) (rule 1, rule mem, rule 2, rule 3,
        simp only: mem nan_genre, simp only: mem_year nan_year)
qed

theorem revenue_by_genre_groups_witness:
  "revenue_by_genre (tied_df @ [silent_western]) =
     [(''Comedy'', Some 40), (''Drama'', Some 20), (''Western'', None)] \<and>
   genre_revenues_once ''Drama'' (tied_df @ [silent_western]) = [Some 10, Some 40, Some 10] \<and>
   genre_revenues ''Drama'' (tied_df @ [silent_western]) = [Some 10, Some 40, Some 10]"
  using revenue_by_genre_groups [of "tied_df @ [silent_western]"]
  by (simp add: revenue_by_genre_def groupby_mean_def group_keys_def group_rows_def explode_def
      mean_def dropna_def sort_values_desc_def sort_desc_def notna_rows_def isna_rows_def
      genre_revenues_def genre_revenues_once_def
      tied_df_def drama_2000_def comedy_2005_def undated_def second_drama_def silent_western_def)

theorem revenue_by_genre_repeated_counterexample:
  "revenue_by_genre repeated_df = [(''Action'', Some 20)] \<and>
   mean (genre_revenues_once ''Action'' repeated_df) = Some 25"
  by (simp add: revenue_by_genre_def groupby_mean_def group_keys_def group_rows_def explode_def
      mean_def dropna_def sort_values_desc_def sort_desc_def notna_rows_def isna_rows_def
      genre_revenues_once_def repeated_df_def)

section \<open>Genre parsing\<close>

lemma contains_name_dict:
  "contains_name (PDict kvs) = Inr (map_of (rev kvs) (PStr ''name'') \<noteq> None)"
  by (simp add: contains_name_def map_of_eq_None_iff)

lemma names_of_raises:
  "\<exists>d \<in> set ds. raises_on d \<Longrightarrow> \<exists>e. names_of ds = Inl e"
proof (induction ds)
  case Nil
  then show ?case by simp
next
  case (Cons d ds)
  show ?case
  proof (cases "raises_on d")
    case True
    then show ?thesis
      by (auto simp: raises_on_def split: sum.splits bool.splits)
  next
    case False
    with Cons.prems have "\<exists>d \<in> set ds. raises_on d" by simp
    then obtain e where "names_of ds = Inl e" using Cons.IH by blast
    then show ?thesis
      by (simp split: sum.splits bool.splits)
  qed
qed

lemma name_values_Cons:
  "name_values (d # ds) =
     (case d of
        PDict kvs \<Rightarrow> (case map_of (rev kvs) (PStr ''name'') of None \<Rightarrow> [] | Some v \<Rightarrow> [v])
      | _ \<Rightarrow> []) @ name_values ds"
  by (simp add: name_values_def)

lemma names_of_no_raise:
  "\<forall>d \<in> set ds. \<not> raises_on d \<Longrightarrow> names_of ds = Inr (name_values ds)"
proof (induction ds)
  case Nil
  show ?case by (simp add: name_values_def)
next
  case (Cons d ds)
  then have IH: "names_of ds = Inr (name_values ds)" by simp
  from Cons.prems have nr: "\<not> raises_on d" by simp
  show ?case
  proof (cases d)
    case (PDict kvs)
    then show ?thesis
      by (cases "map_of (rev kvs) (PStr ''name'')")
         (simp_all add: IH name_values_Cons contains_name_dict get_name_def)
  qed (use nr in \<open>auto simp: IH name_values_Cons raises_on_def contains_name_def get_name_def
        split: bool.splits\<close>)
qed

lemma raises_on_cases:
  "raises_on PNone" "raises_on PEllipsis" "raises_on (PBool b)" "raises_on (PInt n)"
  "raises_on (PFloat x)" "raises_on (PComplex x y)" "raises_on (PBytes s)"
  "raises_on (PStr s) = sublist ''name'' s"
  "raises_on (PTuple ds) = (PStr ''name'' \<in> set ds)"
  "raises_on (PList ds) = (PStr ''name'' \<in> set ds)"
  "raises_on (PSet ds) = (PStr ''name'' \<in> set ds)"
  "\<not> raises_on (PDict kvs)"
  by (simp_all add: raises_on_def contains_name_def get_name_def split: bool.splits)

text \<open>C9 (as amended): a parsed list with an element on which the comprehension raises
  gives \<^verbatim>\<open>[]\<close> for the whole row, with no partial extraction. These elements are the
  numbers, booleans, \<^verbatim>\<open>None\<close>, \<^verbatim>\<open>Ellipsis\<close> and bytes, and the strings, lists, tuples
  and sets that contain \<^verbatim>\<open>'name'\<close>. Every other element that is not a dict (a string,
  list, tuple or set without \<^verbatim>\<open>'name'\<close>) is skipped, and the names of the dicts
  around it are still returned.\<close>

theorem parse_genres_bad_element:
  "((\<exists>d \<in> set ds. raises_on d) \<longrightarrow> parse_genres (Inr (PList ds)) = []) \<and>
   ((\<forall>d \<in> set ds. \<not> raises_on d) \<longrightarrow> parse_genres (Inr (PList ds)) = name_values ds) \<and>
   (\<forall>d. raises_on d \<longleftrightarrow>
      (case d of
         PDict kvs \<Rightarrow> False
       | PStr s \<Rightarrow> sublist ''name'' s
       | PList xs \<Rightarrow> PStr ''name'' \<in> set xs
       | PTuple xs \<Rightarrow> PStr ''name'' \<in> set xs
       | PSet xs \<Rightarrow> PStr ''name'' \<in> set xs
       | _ \<Rightarrow> True))"
proof (intro conjI impI allI)
  assume "\<exists>d \<in> set ds. raises_on d"
  then obtain e where "names_of ds = Inl e"
    using names_of_raises by blast
  then show "parse_genres (Inr (PList ds)) = []"
    by (simp add: parse_genres_def)
next
  assume "\<forall>d \<in> set ds. \<not> raises_on d"
  then have "names_of ds = Inr (name_values ds)"
    by (rule names_of_no_raise)
  then show "parse_genres (Inr (PList ds)) = name_values ds"
    by (simp add: parse_genres_def)
next
  fix d
  show "raises_on d \<longleftrightarrow>
      (case d of
         PDict kvs \<Rightarrow> False
       | PStr s \<Rightarrow> sublist ''name'' s
       | PList xs \<Rightarrow> PStr ''name'' \<in> set xs
       | PTuple xs \<Rightarrow> PStr ''name'' \<in> set xs
       | PSet xs \<Rightarrow> PStr ''name'' \<in> set xs
       | _ \<Rightarrow> True)"
    by (cases d) (simp_all add: raises_on_cases)
qed

theorem parse_genres_bad_element_witness:
  "raises_on (PInt 5) \<and> parse_genres (Inr action_then_five) = [] \<and>
   parse_genres (Inr two_genres) = [PStr ''Action'', PStr ''Comedy'']"
proof -
  have five: "\<exists>d \<in> set [PDict [(PStr ''id'', PInt 28), (PStr ''name'', PStr ''Action'')], PInt 5].
      raises_on d"
    by (simp add: raises_on_cases)
  have two: "\<forall>d \<in> set [PDict [(PStr ''id'', PInt 28), (PStr ''name'', PStr ''Action'')],
      PDict [(PStr ''id'', PInt 35), (PStr ''name'', PStr ''Comedy'')]]. \<not> raises_on d"
    by (simp add: raises_on_cases)
  show ?thesis
    using five two
      parse_genres_bad_element
        [of "[PDict [(PStr ''id'', PInt 28), (PStr ''name'', PStr ''Action'')], PInt 5]"]
      parse_genres_bad_element
        [of "[PDict [(PStr ''id'', PInt 28), (PStr ''name'', PStr ''Action'')],
              PDict [(PStr ''id'', PInt 35), (PStr ''name'', PStr ''Comedy'')]]"]
    by (simp add: action_then_five_def two_genres_def name_values_def raises_on_cases)
qed

theorem parse_genres_text_element_counterexample:
  "\<not> is_object (PStr ''abc'') \<and> parse_genres (Inr action_then_text) = [PStr ''Action'']"
  by (simp add: is_object_def parse_genres_def action_then_text_def contains_name_def
      get_name_def sublist_Cons_right)

text \<open>C5 (as amended): \<^verbatim>\<open>parse_genres\<close> returns a list for every outcome of the literal
  evaluation: \<^verbatim>\<open>[]\<close> when the evaluation raised, \<^verbatim>\<open>[]\<close> for a value that is not a
  list, and for a list of dicts the values of \<^verbatim>\<open>'name'\<close>, in order, of the dicts that
  have the key. A dict without the key is skipped; the result is \<^verbatim>\<open>[]\<close> when no dict
  has it.\<close>

theorem parse_genres_total:
  "parse_genres (Inl e) = [] \<and>
   ((\<forall>ds. genres \<noteq> PList ds) \<longrightarrow> parse_genres (Inr genres) = []) \<and>
   parse_genres (Inr (PList (map PDict kvss))) =
     concat (map (\<lambda>kvs. case map_of (rev kvs) (PStr ''name'') of None \<Rightarrow> [] | Some v \<Rightarrow> [v]) kvss) \<and>
   ((\<forall>kvs \<in> set kvss. PStr ''name'' \<notin> fst ` set kvs) \<longrightarrow>
      parse_genres (Inr (PList (map PDict kvss))) = [])"
proof -
  have 1: "parse_genres (Inl e) = []"
    by (simp add: parse_genres_def)
  have 2: "(\<forall>ds. genres \<noteq> PList ds) \<longrightarrow> parse_genres (Inr genres) = []"
    by (cases genres) (simp_all add: parse_genres_def)
  have "\<forall>d \<in> set (map PDict kvss). \<not> raises_on d"
    by (simp add: raises_on_cases)
  then have "names_of (map PDict kvss) = Inr (name_values (map PDict kvss))"
    by (rule names_of_no_raise)
  then have 3: "parse_genres (Inr (PList (map PDict kvss))) =
      concat (map (\<lambda>kvs. case map_of (rev kvs) (PStr ''name'') of None \<Rightarrow> [] | Some v \<Rightarrow> [v]) kvss)"
    by (simp add: parse_genres_def name_values_def comp_def)
  have 4: "(\<forall>kvs \<in> set kvss. PStr ''name'' \<notin> fst ` set kvs) \<longrightarrow>
      parse_genres (Inr (PList (map PDict kvss))) = []"
  proof
    assume none: "\<forall>kvs \<in> set kvss. PStr ''name'' \<notin> fst ` set kvs"
    have "map_of (rev kvs) (PStr ''name'') = None" if "kvs \<in> set kvss" for kvs
      using none that by (simp add: map_of_eq_None_iff)
    then show "parse_genres (Inr (PList (map PDict kvss))) = []"
      unfolding 3 by simp
  qed
  show ?thesis
    using 1 2 3 4 by blast
qed

theorem parse_genres_total_witness:
  "parse_genres (Inr (PStr ''not a list'')) = [] \<and>
   parse_genres (Inr two_genres) = [PStr ''Action'', PStr ''Comedy''] \<and>
   parse_genres (Inr (PList (map PDict [[(PStr ''id'', PInt 1)]]))) = []"
  using parse_genres_total [of SyntaxError "PStr ''not a list''"
      "[[(PStr ''id'', PInt 28), (PStr ''name'', PStr ''Action'')],
        [(PStr ''id'', PInt 35), (PStr ''name'', PStr ''Comedy'')]]"]
    parse_genres_total [of SyntaxError "PStr ''not a list''" "[[(PStr ''id'', PInt 1)]]"]
  by (simp add: two_genres_def)

theorem parse_genres_missing_name_counterexample:
  "parse_genres (Inr unnamed_then_action) = [PStr ''Action''] \<and>
   parse_genres (Inr unnamed_then_action) \<noteq> []"
  by (simp add: parse_genres_def unnamed_then_action_def contains_name_def get_name_def)

section \<open>The correlation matrix\<close>

lemma pair_obs_swap: "pair_obs cy cx rows = map prod.swap (pair_obs cx cy rows)"
  by (induction rows) (auto simp: pair_obs_def split: option.splits)

lemma pearson_swap: "pearson (map prod.swap ps) = pearson ps"
  by (simp add: pearson_def Let_def comp_def mult.commute)

lemma pair_obs_complete:
  "pair_obs cx cy (filter (\<lambda>r. cx r \<noteq> None \<and> cy r \<noteq> None) rows) = pair_obs cx cy rows"
  by (induction rows) (auto simp: pair_obs_def split: option.splits)

lemma pair_obs_same: "pair_obs c c rows = map (\<lambda>x. (x, x)) (dropna (map c rows))"
  by (induction rows) (auto simp: pair_obs_def dropna_def split: option.splits)

lemma sum_squares_zero_iff:
  "sum_list (map (\<lambda>x. (x - m) ^ 2) xs) = 0 \<longleftrightarrow> (\<forall>x \<in> set xs. x = m)" for m :: real
proof -
  have "sum_list (map (\<lambda>x. (x - m) ^ 2) xs) = 0 \<longleftrightarrow>
      (\<forall>y \<in> set (map (\<lambda>x. (x - m) ^ 2) xs). y = 0)"
    by (rule sum_list_nonneg_eq_0_iff) auto
  then show ?thesis by simp
qed

lemma mean_of_equal:
  fixes a :: real
  assumes "xs \<noteq> []" and "\<forall>x \<in> set xs. x = a"
  shows "sum_list xs / real (length xs) = a"
proof -
  have "replicate (length xs) a = xs"
    using assms(2) by (rule replicate_length_same)
  then have "sum_list xs = real (length xs) * a"
    by (metis sum_list_replicate)
  then show ?thesis using assms(1) by simp
qed

lemma pearson_same:
  "pearson (map (\<lambda>x. (x, x)) xs) =
     (if \<exists>x \<in> set xs. \<exists>y \<in> set xs. x \<noteq> y then Some 1 else None)"
proof (cases "xs = []")
  case True
  then show ?thesis by (simp add: pearson_def)
next
  case False
  define m where "m = sum_list xs / real (length xs)"
  define S where "S = sum_list (map (\<lambda>x. (x - m) ^ 2) xs)"
  have len: "\<not> length xs < 1" using False by (cases xs) simp_all
  have cov: "sum_list (map (\<lambda>x. (x - m) * (x - m)) xs) = S"
    by (simp add: S_def power2_eq_square)
  have "pearson (map (\<lambda>x. (x, x)) xs) = (if sqrt (S * S) \<noteq> 0 then Some (S / sqrt (S * S)) else None)"
    using len by (simp add: pearson_def Let_def comp_def m_def [symmetric] S_def [symmetric] cov)
  moreover have "0 \<le> S"
    unfolding S_def by (rule sum_list_nonneg) auto
  ultimately have p: "pearson (map (\<lambda>x. (x, x)) xs) = (if S \<noteq> 0 then Some 1 else None)"
    by simp
  have "S = 0 \<longleftrightarrow> \<not> (\<exists>x \<in> set xs. \<exists>y \<in> set xs. x \<noteq> y)"
  proof
    assume "S = 0"
    then have "\<forall>x \<in> set xs. x = m"
      by (simp add: S_def sum_squares_zero_iff)
    then show "\<not> (\<exists>x \<in> set xs. \<exists>y \<in> set xs. x \<noteq> y)" by metis
  next
    assume same: "\<not> (\<exists>x \<in> set xs. \<exists>y \<in> set xs. x \<noteq> y)"
    from False obtain a where a: "a \<in> set xs" by (cases xs) auto
    with same have all: "\<forall>x \<in> set xs. x = a" by auto
    then have "m = a"
      unfolding m_def using False by (intro mean_of_equal) auto
    with all show "S = 0"
      by (simp add: S_def sum_squares_zero_iff)
  qed
  with p show ?thesis by auto
qed

lemma corr_nth:
  assumes "i < 5" "j < 5"
  shows "corr fdf ! i ! j = pearson (pair_obs (numeric_columns ! i) (numeric_columns ! j) fdf)"
proof -
  have len: "length numeric_columns = 5"
    by (simp add: numeric_columns_def)
  show ?thesis
    using assms by (simp add: corr_def len)
qed

text \<open>C7 (as amended): for any two of the five numeric columns, the entry of the
  correlation matrix is the Pearson coefficient of the rows in which both columns hold
  a number; the matrix is symmetric; and a diagonal entry is 1 when the column holds
  two different numbers and NaN otherwise (no number at all, a single number, or the
  same number in every row). Arithmetic is exact.\<close>

theorem corr_properties:
  assumes "i < 5" and "j < 5"
  shows "corr fdf ! i ! j =
           pearson (pair_obs (numeric_columns ! i) (numeric_columns ! j)
             (filter (\<lambda>r. (numeric_columns ! i) r \<noteq> None \<and> (numeric_columns ! j) r \<noteq> None) fdf)) \<and>
         corr fdf ! i ! j = corr fdf ! j ! i \<and>
         corr fdf ! i ! i =
           (if \<exists>x \<in> set (column_values (numeric_columns ! i) fdf).
                 \<exists>y \<in> set (column_values (numeric_columns ! i) fdf). x \<noteq> y
            then Some 1 else None)"
proof (intro conjI)
  show "corr fdf ! i ! j =
      pearson (pair_obs (numeric_columns ! i) (numeric_columns ! j)
        (filter (\<lambda>r. (numeric_columns ! i) r \<noteq> None \<and> (numeric_columns ! j) r \<noteq> None) fdf))"
    using assms by (simp only: corr_nth pair_obs_complete)
  show "corr fdf ! i ! j = corr fdf ! j ! i"
    using assms by (simp add: corr_nth pair_obs_swap [of "numeric_columns ! j"] pearson_swap)
  show "corr fdf ! i ! i =
      (if \<exists>x \<in> set (column_values (numeric_columns ! i) fdf).
            \<exists>y \<in> set (column_values (numeric_columns ! i) fdf). x \<noteq> y
       then Some 1 else None)"
    using assms(1) by (simp only: corr_nth pair_obs_same pearson_same column_values_def)
qed

theorem corr_properties_witness:
  "column_values revenue tied_df = [10, 40, 10] \<and> corr tied_df ! 1 ! 1 = Some 1 \<and>
   corr tied_df ! 1 ! 2 = corr tied_df ! 2 ! 1"
proof -
  have i: "(1::nat) < 5" and j: "(2::nat) < 5"
    by simp_all
  note facts = corr_properties [OF i j, of tied_df]
  have col: "numeric_columns ! 1 = revenue"
    by (simp add: numeric_columns_def)
  have vals: "column_values revenue tied_df = [10, 40, 10]"
    by (simp add: column_values_def dropna_def
        tied_df_def drama_2000_def comedy_2005_def undated_def second_drama_def)
  from facts have "corr tied_df ! 1 ! 1 =
      (if \<exists>x \<in> set (column_values revenue tied_df).
            \<exists>y \<in> set (column_values revenue tied_df). x \<noteq> y
       then Some 1 else None)"
    unfolding col by (rule conjunct2 [THEN conjunct2])
  moreover have "\<exists>x \<in> set [10, 40, 10 :: real]. \<exists>y \<in> set [10, 40, 10]. x \<noteq> y"
    by (intro bexI [of _ 10] bexI [of _ 40]) simp_all
  ultimately have diag: "corr tied_df ! 1 ! 1 = Some 1"
    unfolding vals by (simp only: if_True)
  from facts have sym: "corr tied_df ! 1 ! 2 = corr tied_df ! 2 ! 1"
    by (rule conjunct2 [THEN conjunct1])
  show ?thesis
    using vals diag sym by simp
qed

theorem corr_constant_column_counterexample:
  "column_values revenue [comedy_2005] = [40] \<and> corr [comedy_2005] ! 1 ! 1 = None"
  by (simp add: corr_def numeric_columns_def pair_obs_def pearson_def column_values_def dropna_def
      comedy_2005_def)

end
